theory Spec2Isabelle
  imports Complex_Main "HOL-Library.AList"
begin

text \<open>
  The Python SDK of Infinity Assistant: the blocking client (\<^verbatim>\<open>client.py\<close>), the
  non-blocking client (\<^verbatim>\<open>async_client.py\<close>) and the errors they raise
  (\<^verbatim>\<open>exceptions.py\<close>). The model covers the request executor \<^verbatim>\<open>_request\<close> with its
  retries and sleeps, and the generator \<^verbatim>\<open>chat_stream\<close> with its decoding loop. The server
  and the HTTP libraries are the environment: a server is the outcome of each attempt on
  the wire, and a call returns its result together with the sends and sleeps it made.
\<close>

section \<open>Values exchanged with the API\<close>

text \<open>
  The clients treat every payload as decoded JSON: the result of \<^verbatim>\<open>json.loads\<close> or of
  \<^verbatim>\<open>response.json()\<close>. A Python \<^verbatim>\<open>dict\<close> is an association list in insertion order,
  \<^verbatim>\<open>None\<close> is \<open>JNull\<close>, an \<^verbatim>\<open>int\<close> is unbounded, and a finite \<^verbatim>\<open>float\<close> is the rational
  it denotes.
\<close>

datatype json =
    JNull
  | JBool bool
  | JInt int
  | JFloat rat
  | JStr string
  | JArr "json list"
  | JObj "(string \<times> json) list"

text \<open>Python truthiness, as used by \<^verbatim>\<open>or\<close> and by \<^verbatim>\<open>if x:\<close>.\<close>

fun truthy :: "json \<Rightarrow> bool" where
  "truthy JNull = False"
| "truthy (JBool b) = b"
| "truthy (JInt i) = (i \<noteq> 0)"
| "truthy (JFloat q) = (q \<noteq> 0)"
| "truthy (JStr s) = (s \<noteq> [])"
| "truthy (JArr xs) = (xs \<noteq> [])"
| "truthy (JObj kvs) = (kvs \<noteq> [])"

text \<open>\<^verbatim>\<open>a or b\<close>: the first operand when it is truthy, the second otherwise.\<close>

definition py_or :: "json \<Rightarrow> json \<Rightarrow> json" where
  "py_or a b = (if truthy a then a else b)"

text \<open>\<^verbatim>\<open>d.get(k)\<close> and \<^verbatim>\<open>d.get(k, default)\<close> on a dict.\<close>

definition dict_get_default :: "(string \<times> json) list \<Rightarrow> string \<Rightarrow> json \<Rightarrow> json" where
  "dict_get_default kvs k d = (case map_of kvs k of None \<Rightarrow> d | Some v \<Rightarrow> v)"

definition dict_get :: "(string \<times> json) list \<Rightarrow> string \<Rightarrow> json" where
  "dict_get kvs k = dict_get_default kvs k JNull"

text \<open>Whether a decoded value is a \<^verbatim>\<open>dict\<close>.\<close>

fun is_dict :: "json \<Rightarrow> bool" where
  "is_dict (JObj kvs) = True"
| "is_dict v = False"

section \<open>Error taxonomy (exceptions.py)\<close>

datatype error_class =
    InfinityAssistantError
  | InfinityAssistantRateLimitError
  | InfinityAssistantTimeoutError
  | InfinityAssistantNetworkError

record api_error =
  err_class :: error_class
  err_message :: json
  err_code :: json
  err_status_code :: "int option"
  err_response :: "json option"

definition new_error :: "json \<Rightarrow> json \<Rightarrow> int option \<Rightarrow> json option \<Rightarrow> api_error" where
  "new_error msg c st resp =
     \<lparr>err_class = InfinityAssistantError, err_message = msg, err_code = c,
      err_status_code = st, err_response = resp\<rparr>"

definition new_rate_limit_error :: "string \<Rightarrow> api_error" where
  "new_rate_limit_error msg =
     \<lparr>err_class = InfinityAssistantRateLimitError, err_message = JStr msg,
      err_code = JStr ''RATE_LIMIT'', err_status_code = Some 429, err_response = None\<rparr>"

definition new_timeout_error :: "string \<Rightarrow> api_error" where
  "new_timeout_error msg =
     \<lparr>err_class = InfinityAssistantTimeoutError, err_message = JStr msg,
      err_code = JStr ''TIMEOUT'', err_status_code = Some 408, err_response = None\<rparr>"

definition new_network_error :: "string \<Rightarrow> api_error" where
  "new_network_error msg =
     \<lparr>err_class = InfinityAssistantNetworkError, err_message = JStr msg,
      err_code = JStr ''NETWORK_ERROR'', err_status_code = Some 0, err_response = None\<rparr>"

text \<open>
  What a call can raise: one of the SDK's errors, or a Python exception that no handler
  of the clients catches.
\<close>

datatype py_exception =
    ApiException api_error
  | ValueError
  | AttributeError
  | JSONDecodeError
  | UnicodeDecodeError
  | OverflowError

text \<open>The three errors that the handlers of the clients build, with their fixed texts.\<close>

definition rate_limit_error :: py_exception where
  "rate_limit_error = ApiException (new_rate_limit_error ''Rate limit exceeded. Please try again later.'')"

definition timeout_error :: py_exception where
  "timeout_error = ApiException (new_timeout_error ''Request timeout'')"

definition network_error :: "string \<Rightarrow> py_exception" where
  "network_error e = ApiException (new_network_error (''Network error: '' @ e))"

section \<open>Streaming decoder (chat\_stream)\<close>

datatype chunk =
    TextChunk json
  | MetadataChunk json
  | DoneChunk
  | ErrorChunk json

text \<open>
  One line as the HTTP library hands it to the loop: bytes that are valid UTF-8, given by
  their text, or bytes on which \<^verbatim>\<open>line.decode("utf-8")\<close> raises. The empty line
  is \<open>Utf8 []\<close>. The loops are modelled on the lines as they receive them; how each
  library cuts one body into lines is modelled further down (\<open>iter_lines\<close>,
  \<open>content_lines\<close>).
\<close>

datatype raw_line = Utf8 string | Undecodable

text \<open>
  How the line iterator stops: the body is over, no byte arrives within the timeout, or
  the connection breaks; the last two with the text of the library's exception.
\<close>

datatype stream_end = EndOfStream | StreamTimeout string | StreamFailed string

text \<open>
  The effect of one pass through the loop body on a decoded line: go on to the next
  line, leave the loop (\<^verbatim>\<open>break\<close>), or raise; with the chunks yielded on the way.
\<close>

datatype step = Continue "chunk list" | Break "chunk list" | Raise py_exception

text \<open>
  The body from \<^verbatim>\<open>if line_str.startswith("data: ")\<close> on, which is the same text in both
  clients. \<^verbatim>\<open>parsed.get\<close> exists on a dict only. \<open>loads\<close> is \<^verbatim>\<open>json.loads\<close> on the texts on
  which it returns (\<open>Some\<close>) or raises \<^verbatim>\<open>JSONDecodeError\<close> (\<open>None\<close>); a text on which it
  raises something else (\<^verbatim>\<open>RecursionError\<close> on deep nesting, \<^verbatim>\<open>ValueError\<close> on an integer
  literal beyond the interpreter's digit limit) is not among the lines of the model.
\<close>

definition on_line :: "(string \<Rightarrow> json option) \<Rightarrow> string \<Rightarrow> step" where
  "on_line loads line_str =
     (if take 6 line_str = ''data: '' then
        (let data = drop 6 line_str in
         if data = ''[DONE]'' then Break [DoneChunk]
         else
           (case loads data of
              None \<Rightarrow> Continue []
            | Some (JObj parsed) \<Rightarrow>
                if dict_get parsed ''type'' = JStr ''error'' then
                  Break [ErrorChunk (dict_get_default parsed ''error'' (JStr ''Unknown error''))]
                else
                  Continue
                    ((if truthy (dict_get parsed ''content'')
                      then [TextChunk (dict_get parsed ''content'')] else []) @
                     (if truthy (dict_get parsed ''metadata'')
                      then [MetadataChunk (dict_get parsed ''metadata'')] else []))
            | Some _ \<Rightarrow> Raise AttributeError))
      else Continue [])"

datatype loop_exit = Exhausted | Broke | Raised py_exception

text \<open>
  The \<^verbatim>\<open>for line in response.iter_lines()\<close> loop of the blocking client.
  \<^verbatim>\<open>line.decode("utf-8")\<close> stands before the \<^verbatim>\<open>try\<close>, so its exception leaves the loop.
\<close>

fun iter_lines_loop :: "(string \<Rightarrow> json option) \<Rightarrow> raw_line list \<Rightarrow> chunk list \<times> loop_exit" where
  "iter_lines_loop loads [] = ([], Exhausted)"
| "iter_lines_loop loads (Utf8 [] # rest) = iter_lines_loop loads rest"
| "iter_lines_loop loads (Undecodable # rest) = ([], Raised UnicodeDecodeError)"
| "iter_lines_loop loads (Utf8 line_str # rest) =
     (case on_line loads line_str of
        Continue cs \<Rightarrow> (case iter_lines_loop loads rest of (ds, e) \<Rightarrow> (cs @ ds, e))
      | Break cs \<Rightarrow> (cs, Broke)
      | Raise x \<Rightarrow> ([], Raised x))"

text \<open>
  The \<^verbatim>\<open>async for line in response.content\<close> loop of the non-blocking client: no test
  for an empty line before decoding.
\<close>

fun content_loop :: "(string \<Rightarrow> json option) \<Rightarrow> raw_line list \<Rightarrow> chunk list \<times> loop_exit" where
  "content_loop loads [] = ([], Exhausted)"
| "content_loop loads (Undecodable # rest) = ([], Raised UnicodeDecodeError)"
| "content_loop loads (Utf8 line_str # rest) =
     (case on_line loads line_str of
        Continue cs \<Rightarrow> (case content_loop loads rest of (ds, e) \<Rightarrow> (cs @ ds, e))
      | Break cs \<Rightarrow> (cs, Broke)
      | Raise x \<Rightarrow> ([], Raised x))"

text \<open>
  What the handlers around the body of each generator make of the way the iterator
  stops. In the blocking client a timeout while the body is read reaches the generator as
  a \<^verbatim>\<open>ConnectionError\<close> of requests, which is not a \<^verbatim>\<open>Timeout\<close>, so the handler for
  \<^verbatim>\<open>RequestException\<close> takes it; in the non-blocking client it is an
  \<^verbatim>\<open>asyncio.TimeoutError\<close>.
\<close>

definition iter_lines_raises :: "stream_end \<Rightarrow> py_exception option" where
  "iter_lines_raises ending =
     (case ending of
        EndOfStream \<Rightarrow> None
      | StreamTimeout e \<Rightarrow> Some (network_error e)
      | StreamFailed e \<Rightarrow> Some (network_error e))"

definition content_raises :: "stream_end \<Rightarrow> py_exception option" where
  "content_raises ending =
     (case ending of
        EndOfStream \<Rightarrow> None
      | StreamTimeout e \<Rightarrow> Some timeout_error
      | StreamFailed e \<Rightarrow> Some (network_error e))"

text \<open>
  What follows the loop. \<^verbatim>\<open>break\<close> leaves the loop, not the generator, so the
  \<^verbatim>\<open>yield {"type": "done"}\<close> after the loop runs after a \<^verbatim>\<open>break\<close> as well as after the
  last line. A transport failure of the iterator is caught by the handlers around the
  whole body (\<open>raises\<close>); any other exception leaves the generator as it is.
\<close>

definition after_loop ::
  "(stream_end \<Rightarrow> py_exception option) \<Rightarrow> chunk list \<times> loop_exit \<Rightarrow> stream_end \<Rightarrow> chunk list \<times> py_exception option"
where
  "after_loop raises res ending =
     (case res of
        (cs, Raised x) \<Rightarrow> (cs, Some x)
      | (cs, Broke) \<Rightarrow> (cs @ [DoneChunk], None)
      | (cs, Exhausted) \<Rightarrow>
          (case raises ending of
             None \<Rightarrow> (cs @ [DoneChunk], None)
           | Some x \<Rightarrow> (cs, Some x)))"

definition decode_stream :: "(string \<Rightarrow> json option) \<Rightarrow> raw_line list \<Rightarrow> stream_end \<Rightarrow> chunk list \<times> py_exception option" where
  "decode_stream loads ls ending = after_loop iter_lines_raises (iter_lines_loop loads ls) ending"

definition decode_stream_async :: "(string \<Rightarrow> json option) \<Rightarrow> raw_line list \<Rightarrow> stream_end \<Rightarrow> chunk list \<times> py_exception option" where
  "decode_stream_async loads ls ending = after_loop content_raises (content_loop loads ls) ending"

text \<open>
  How each library cuts one body into lines. A body is given by its lines as the server
  wrote them, each followed by a line feed; the texts hold no line break themselves.
  \<^verbatim>\<open>iter_lines\<close> of requests hands each line without its terminator; the content iterator
  of aiohttp hands each line with it.
\<close>

definition iter_lines :: "raw_line list \<Rightarrow> raw_line list" where
  "iter_lines body = body"

definition content_lines :: "raw_line list \<Rightarrow> raw_line list" where
  "content_lines body =
     map (\<lambda>l. case l of Utf8 s \<Rightarrow> Utf8 (s @ [CHR 0x0A]) | Undecodable \<Rightarrow> Undecodable) body"

section \<open>Client configuration and what is sent\<close>

datatype http_method = GET | POST | PUT | DELETE | HEAD | OPTIONS | TRACE | PATCH

record client =
  api_key :: "string option"
  base_url :: string
  timeout :: int
  max_retries :: nat
  retry_delay :: rat

definition rstrip :: "char \<Rightarrow> string \<Rightarrow> string" where
  "rstrip c s = rev (dropWhile (\<lambda>x. x = c) (rev s))"

text \<open>\<^verbatim>\<open>__init__\<close>, the same in both classes but for the HTTP session it prepares.\<close>

definition new_client :: "string option \<Rightarrow> string \<Rightarrow> int \<Rightarrow> nat \<Rightarrow> rat \<Rightarrow> client" where
  "new_client key url t retries delay =
     \<lparr>api_key = key, base_url = rstrip (CHR ''/'') url, timeout = t,
      max_retries = retries, retry_delay = delay\<rparr>"

definition set_api_key :: "client \<Rightarrow> string \<Rightarrow> client" where
  "set_api_key cl key = cl\<lparr>api_key := Some key\<rparr>"

text \<open>\<^verbatim>\<open>_get_headers\<close>, the same in both classes.\<close>

definition get_headers :: "client \<Rightarrow> (string \<times> string) list" where
  "get_headers cl =
     (''Content-Type'', ''application/json'') #
     (case api_key cl of
        None \<Rightarrow> []
      | Some key \<Rightarrow> if key = [] then [] else [(''X-API-Key'', key)])"

text \<open>The arguments of \<^verbatim>\<open>_request\<close>.\<close>

record api_call =
  verb :: http_method
  endpoint :: string
  params :: "(string \<times> string) list option"
  data :: "json option"

text \<open>
  What a client hands to its HTTP library for one attempt: the verb, the URL, query
  parameters passed apart from the URL, the headers and the JSON body.
\<close>

record library_call =
  lc_verb :: http_method
  lc_url :: string
  lc_params :: "(string \<times> string) list option"
  lc_headers :: "(string \<times> string) list"
  lc_json :: "json option"

section \<open>What the transport answers\<close>

text \<open>
  The result of \<^verbatim>\<open>response.json()\<close>: the decoded body, or an exception. The libraries
  raise either a plain decoding error or one of their own transport exception classes
  (\<^verbatim>\<open>requests.exceptions.JSONDecodeError\<close>, \<^verbatim>\<open>aiohttp.ContentTypeError\<close>), which the
  handler for transport errors catches; the response says which. A response is read as
  the library of the client that receives it presents it.
\<close>

datatype json_result = Parsed json | DecodeFailed | DecodeFailedTransport string

record http_response =
  status_code :: int
  retry_after :: "string option"
  location :: "string option"
  json_body :: json_result
  body_lines :: "raw_line list"
  body_end :: stream_end

text \<open>
  One attempt on the wire ends with a response, or without one: the connection is not
  made within the timeout, the connection is made and no response arrives within the
  timeout, or the connection cannot be made at all. The last two carry the text of the
  exception that the library raises for them. A server is the outcome of each attempt,
  counted from 0. A connection that breaks after the request was sent is not among the
  outcomes of the model.
\<close>

datatype outcome =
    Responded http_response
  | ConnectTimedOut
  | ReadTimedOut string
  | ConnFailed string

text \<open>
  What one call of the library gives the client: a response, a timeout exception
  (\<^verbatim>\<open>requests.exceptions.Timeout\<close>, \<^verbatim>\<open>asyncio.TimeoutError\<close>), or another transport exception
  (\<^verbatim>\<open>requests.exceptions.RequestException\<close>, \<^verbatim>\<open>aiohttp.ClientError\<close>) with its text.
\<close>

datatype answer = Response http_response | TimeoutRaised | FailureRaised string

datatype event = Send library_call | Sleep rat

text \<open>\<^verbatim>\<open>response.ok\<close>: of requests, no status from 400 to 599; of aiohttp, a status below 400.\<close>

definition ok_requests :: "http_response \<Rightarrow> bool" where
  "ok_requests r = (\<not> (400 \<le> status_code r \<and> status_code r < 600))"

definition ok_aiohttp :: "http_response \<Rightarrow> bool" where
  "ok_aiohttp r = (status_code r < 400)"

section \<open>The Python runtime and the libraries as parameters\<close>

text \<open>
  The functions of the Python runtime and of the HTTP libraries that the clients reach
  and whose results depend on text, on floating point or on the platform are parameters
  of the model: \<open>py_int\<close> is \<^verbatim>\<open>int(s)\<close> (\<open>None\<close> when it raises \<^verbatim>\<open>ValueError\<close>),
  \<open>json_loads\<close> is \<^verbatim>\<open>json.loads(s)\<close> (\<open>None\<close> when it raises \<^verbatim>\<open>JSONDecodeError\<close>),
  \<open>urlencode\<close> is \<^verbatim>\<open>urllib.parse.urlencode\<close>, \<open>retry_after_valid\<close> tells whether urllib3
  can read a \<^verbatim>\<open>Retry-After\<close> value (seconds or an HTTP date), \<open>py_mul x k\<close> is the product
  \<^verbatim>\<open>x * k\<close> of the configured delay and an \<^verbatim>\<open>int\<close> as Python computes it (rounded when \<open>x\<close>
  is a float), \<open>sleep_overflows d\<close> tells whether \<open>d\<close> seconds do not fit the clock type
  that \<^verbatim>\<open>time.sleep\<close> converts them to, \<open>float_overflows d\<close> whether \<open>d\<close> is an \<^verbatim>\<open>int\<close> too
  large for a float, and \<open>requests_redirect\<close> and \<open>aiohttp_redirect\<close> give the request
  that the library sends next when it follows a redirect (verb, URL, headers and body as
  the library rebuilds them). Every general theorem below holds for all of them, whatever
  they compute.
\<close>

record pylib =
  py_int :: "string \<Rightarrow> int option"
  json_loads :: "string \<Rightarrow> json option"
  urlencode :: "(string \<times> string) list \<Rightarrow> string"
  retry_after_valid :: "string \<Rightarrow> bool"
  py_mul :: "rat \<Rightarrow> nat \<Rightarrow> rat"
  sleep_overflows :: "rat \<Rightarrow> bool"
  float_overflows :: "rat \<Rightarrow> bool"
  requests_redirect :: "library_call \<Rightarrow> http_response \<Rightarrow> library_call"
  aiohttp_redirect :: "library_call \<Rightarrow> http_response \<Rightarrow> library_call"

text \<open>
  \<^verbatim>\<open>time.sleep(d)\<close> converts the delay first (\<^verbatim>\<open>OverflowError\<close>) and then refuses a negative
  one (\<^verbatim>\<open>ValueError\<close>). \<^verbatim>\<open>asyncio.sleep(d)\<close> returns at once for a delay that is not positive
  and otherwise adds it to the clock of the loop, a float (\<^verbatim>\<open>OverflowError\<close>). \<open>None\<close>: the
  sleep returns.
\<close>

definition time_sleep :: "pylib \<Rightarrow> rat \<Rightarrow> py_exception option" where
  "time_sleep lib d =
     (if sleep_overflows lib d then Some OverflowError
      else if d < 0 then Some ValueError
      else None)"

definition asyncio_sleep :: "pylib \<Rightarrow> rat \<Rightarrow> py_exception option" where
  "asyncio_sleep lib d = (if 0 < d \<and> float_overflows lib d then Some OverflowError else None)"

text \<open>\<^verbatim>\<open>self.retry_delay * (retry_count + 1)\<close>.\<close>

definition backoff :: "pylib \<Rightarrow> client \<Rightarrow> nat \<Rightarrow> rat" where
  "backoff lib cl retry_count = py_mul lib (retry_delay cl) (retry_count + 1)"

text \<open>The blocking client appends the encoded query to the URL itself.\<close>

definition sync_call :: "pylib \<Rightarrow> client \<Rightarrow> api_call \<Rightarrow> library_call" where
  "sync_call lib cl c =
     \<lparr>lc_verb = verb c,
      lc_url = base_url cl @ endpoint c @
        (case params c of
           None \<Rightarrow> []
         | Some ps \<Rightarrow> if ps = [] then [] else ''?'' @ urlencode lib ps),
      lc_params = None,
      lc_headers = get_headers cl,
      lc_json = data c\<rparr>"

text \<open>The non-blocking client passes \<^verbatim>\<open>params\<close> on to the library.\<close>

definition async_call :: "client \<Rightarrow> api_call \<Rightarrow> library_call" where
  "async_call cl c =
     \<lparr>lc_verb = verb c, lc_url = base_url cl @ endpoint c, lc_params = params c,
      lc_headers = get_headers cl, lc_json = data c\<rparr>"

text \<open>\<^verbatim>\<open>chat_stream\<close>: \<^verbatim>\<open>kwargs["stream"] = True\<close>, then a POST to \<^verbatim>\<open>/chat\<close>, in both clients.\<close>

definition stream_call :: "client \<Rightarrow> (string \<times> json) list \<Rightarrow> library_call" where
  "stream_call cl kwargs =
     \<lparr>lc_verb = POST, lc_url = base_url cl @ ''/chat'', lc_params = None,
      lc_headers = get_headers cl,
      lc_json = Some (JObj (AList.update ''stream'' (JBool True) kwargs))\<rparr>"

subsection \<open>Redirects\<close>

text \<open>
  Neither client passes \<^verbatim>\<open>allow_redirects=False\<close>, so both libraries follow a response
  with one of these statuses and a redirect target (\<open>location\<close>: the \<^verbatim>\<open>Location\<close> header,
  not empty) by a request of their own, and hand the client the response to the last
  request. Every other response with a status from 300 to 399 is handed on as it is.
\<close>

definition redirect_statuses :: "int list" where
  "redirect_statuses = [301, 302, 303, 307, 308]"

definition has_location :: "http_response \<Rightarrow> bool" where
  "has_location r = (case location r of None \<Rightarrow> False | Some s \<Rightarrow> s \<noteq> [])"

definition is_redirect :: "http_response \<Rightarrow> bool" where
  "is_redirect r = (status_code r \<in> set redirect_statuses \<and> has_location r)"

text \<open>
  requests follows 30 redirects and raises \<^verbatim>\<open>TooManyRedirects\<close>, a \<^verbatim>\<open>RequestException\<close>, on
  the next one; aiohttp counts every response with one of the statuses and raises its
  \<^verbatim>\<open>TooManyRedirects\<close>, a \<^verbatim>\<open>ClientError\<close>, on the tenth. The texts of the exceptions that
  the libraries build themselves are abbreviated to their constant part.
\<close>

definition requests_max_redirects :: nat where
  "requests_max_redirects = 30"

definition aiohttp_max_redirects :: nat where
  "aiohttp_max_redirects = 10"

definition too_many_redirects_text :: string where
  "too_many_redirects_text = ''Exceeded 30 redirects.''"

definition aiohttp_too_many_redirects_text :: string where
  "aiohttp_too_many_redirects_text = ''Too many redirects''"

subsection \<open>The retrying adapter of the blocking client\<close>

text \<open>
  \<^verbatim>\<open>__init__\<close> of the blocking client mounts an adapter with
  \<^verbatim>\<open>Retry(total=max_retries, backoff_factor=retry_delay, status_forcelist=[429, 500, 502, 503, 504])\<close>
  on its session, so every request that the session sends goes through urllib3's retry
  loop and may use several attempts. The definitions below follow urllib3's
  \<^verbatim>\<open>Retry.is_retry\<close>, \<^verbatim>\<open>Retry.increment\<close> and \<^verbatim>\<open>urlopen\<close> and the way the adapter of requests
  reports what urllib3 raises. Only \<^verbatim>\<open>total\<close> is set, so every repeated attempt, whatever
  its cause, takes one from the same budget. The waits of the adapter between its own
  attempts are not recorded. The non-blocking client has no such layer.
\<close>

definition status_forcelist :: "int list" where
  "status_forcelist = [429, 500, 502, 503, 504]"

definition allowed_methods :: "http_method list" where
  "allowed_methods = [HEAD, GET, PUT, DELETE, OPTIONS, TRACE]"

definition retry_after_status_codes :: "int list" where
  "retry_after_status_codes = [413, 429, 503]"

definition has_retry_after :: "http_response \<Rightarrow> bool" where
  "has_retry_after r = (case retry_after r of None \<Rightarrow> False | Some s \<Rightarrow> s \<noteq> [])"

definition is_retry :: "nat \<Rightarrow> http_method \<Rightarrow> http_response \<Rightarrow> bool" where
  "is_retry left m r =
     (m \<in> set allowed_methods \<and>
      (status_code r \<in> set status_forcelist \<or>
       (left \<noteq> 0 \<and> has_retry_after r \<and> status_code r \<in> set retry_after_status_codes)))"

definition retry_error_text :: string where
  "retry_error_text = ''Max retries exceeded''"

definition invalid_header_text :: string where
  "invalid_header_text = ''Invalid Retry-After header''"

definition unreadable_retry_after :: "pylib \<Rightarrow> http_response \<Rightarrow> bool" where
  "unreadable_retry_after lib r =
     (case retry_after r of None \<Rightarrow> False | Some s \<Rightarrow> \<not> retry_after_valid lib s)"

text \<open>
  \<open>urlopen lib left m srv n\<close>: the attempts from number \<open>n\<close> on with \<open>left\<close> retries left
  of the \<^verbatim>\<open>total\<close>; what the adapter gives the session and the number of the next attempt.

  A response that \<^verbatim>\<open>is_retry\<close> selects is repeated; with the budget used up the adapter
  raises \<^verbatim>\<open>RetryError\<close>, and an unreadable \<^verbatim>\<open>Retry-After\<close> makes it raise \<^verbatim>\<open>InvalidHeader\<close>.
  A connection that cannot be made, or is not made in time, is tried again for every
  verb; with the budget used up the adapter raises \<^verbatim>\<open>ConnectionError\<close> for the first and
  \<^verbatim>\<open>ConnectTimeout\<close> for the second. A response that does not arrive in time is waited for
  again only for the verbs of \<open>allowed_methods\<close>, and with the budget used up the adapter
  raises \<^verbatim>\<open>ConnectionError\<close>; for the other verbs it raises \<^verbatim>\<open>ReadTimeout\<close> at once.
\<close>

fun urlopen :: "pylib \<Rightarrow> nat \<Rightarrow> http_method \<Rightarrow> (nat \<Rightarrow> outcome) \<Rightarrow> nat \<Rightarrow> answer \<times> nat" where
  "urlopen lib left m srv n =
     (case srv n of
        Responded r \<Rightarrow>
          if is_retry left m r then
            (case left of
               0 \<Rightarrow> (FailureRaised retry_error_text, Suc n)
             | Suc t \<Rightarrow>
                 if unreadable_retry_after lib r then (FailureRaised invalid_header_text, Suc n)
                 else urlopen lib t m srv (Suc n))
          else (Response r, Suc n)
      | ConnFailed e \<Rightarrow>
          (case left of
             0 \<Rightarrow> (FailureRaised e, Suc n)
           | Suc t \<Rightarrow> urlopen lib t m srv (Suc n))
      | ConnectTimedOut \<Rightarrow>
          (case left of
             0 \<Rightarrow> (TimeoutRaised, Suc n)
           | Suc t \<Rightarrow> urlopen lib t m srv (Suc n))
      | ReadTimedOut e \<Rightarrow>
          if m \<in> set allowed_methods then
            (case left of
               0 \<Rightarrow> (FailureRaised e, Suc n)
             | Suc t \<Rightarrow> urlopen lib t m srv (Suc n))
          else (TimeoutRaised, Suc n))"


text \<open>
  \<^verbatim>\<open>session.request\<close> and \<^verbatim>\<open>session.post\<close>: the adapter for the request, and again, with
  the whole budget, for every redirect that the session follows. \<open>hops\<close> counts the
  redirects followed so far. The result: what the client gets, the number of the next
  attempt, and the requests sent.
\<close>

function session_request ::
  "pylib \<Rightarrow> client \<Rightarrow> library_call \<Rightarrow> (nat \<Rightarrow> outcome) \<Rightarrow> nat \<Rightarrow> nat \<Rightarrow> answer \<times> nat \<times> event list"
where
  "session_request lib cl call srv n hops =
     (case urlopen lib (max_retries cl) (lc_verb call) srv n of
        (ans, n') \<Rightarrow>
          (case ans of
             Response r \<Rightarrow>
               if is_redirect r then
                 (if hops < requests_max_redirects then
                    (case session_request lib cl (requests_redirect lib call r) srv n' (Suc hops) of
                       (res, n'', tr) \<Rightarrow> (res, n'', replicate (n' - n) (Send call) @ tr))
                  else (FailureRaised too_many_redirects_text, n', replicate (n' - n) (Send call)))
               else (Response r, n', replicate (n' - n) (Send call))
           | TimeoutRaised \<Rightarrow> (TimeoutRaised, n', replicate (n' - n) (Send call))
           | FailureRaised e \<Rightarrow> (FailureRaised e, n', replicate (n' - n) (Send call))))"
  by pat_completeness auto
termination
  by (relation "measure (\<lambda>(lib, cl, call, srv, n, hops). requests_max_redirects - hops)") auto

subsection \<open>The session of the non-blocking client\<close>

text \<open>
  \<^verbatim>\<open>session.request\<close> and \<^verbatim>\<open>session.post\<close> of aiohttp: one attempt for the request and one
  for every redirect followed. The session is made with \<^verbatim>\<open>ClientTimeout(total=timeout)\<close>, so
  either kind of timeout ends the call with \<^verbatim>\<open>asyncio.TimeoutError\<close>.
\<close>

function aiohttp_request ::
  "pylib \<Rightarrow> library_call \<Rightarrow> (nat \<Rightarrow> outcome) \<Rightarrow> nat \<Rightarrow> nat \<Rightarrow> answer \<times> nat \<times> event list"
where
  "aiohttp_request lib call srv n hops =
     (case srv n of
        Responded r \<Rightarrow>
          if status_code r \<in> set redirect_statuses then
            (if Suc hops < aiohttp_max_redirects then
               (if has_location r then
                  (case aiohttp_request lib (aiohttp_redirect lib call r) srv (Suc n) (Suc hops) of
                     (res, n', tr) \<Rightarrow> (res, n', Send call # tr))
                else (Response r, Suc n, [Send call]))
             else (FailureRaised aiohttp_too_many_redirects_text, Suc n, [Send call]))
          else (Response r, Suc n, [Send call])
      | ConnectTimedOut \<Rightarrow> (TimeoutRaised, Suc n, [Send call])
      | ReadTimedOut e \<Rightarrow> (TimeoutRaised, Suc n, [Send call])
      | ConnFailed e \<Rightarrow> (FailureRaised e, Suc n, [Send call]))"
  by pat_completeness auto
termination
  by (relation "measure (\<lambda>(lib, call, srv, n, hops). aiohttp_max_redirects - hops)") auto

section \<open>Request executor (\_request)\<close>

text \<open>
  The \<^verbatim>\<open>if not response.ok:\<close> block, the same text in \<^verbatim>\<open>_request\<close> and \<^verbatim>\<open>chat_stream\<close> of
  both clients. The bare \<^verbatim>\<open>except:\<close> replaces a body that does not decode; \<^verbatim>\<open>.get\<close> exists
  on a dict only.
\<close>

definition error_data_of :: "http_response \<Rightarrow> json" where
  "error_data_of r =
     (case json_body r of
        Parsed v \<Rightarrow> v
      | DecodeFailed \<Rightarrow> JObj [(''error'', JStr ''Unknown error'')]
      | DecodeFailedTransport e \<Rightarrow> JObj [(''error'', JStr ''Unknown error'')])"

definition error_of_response :: "http_response \<Rightarrow> py_exception" where
  "error_of_response r =
     (case error_data_of r of
        JObj error_data \<Rightarrow>
          ApiException
            (new_error
               (py_or (py_or (dict_get error_data ''message'') (dict_get error_data ''error''))
                  (JStr ''Request failed''))
               (dict_get error_data ''code'')
               (Some (status_code r))
               (Some (JObj error_data)))
      | _ \<Rightarrow> AttributeError)"

text \<open>\<^verbatim>\<open>delay = int(retry_after) if retry_after else self.retry_delay\<close>; \<open>None\<close> when \<^verbatim>\<open>int\<close> raises.\<close>

definition rate_limit_delay :: "pylib \<Rightarrow> client \<Rightarrow> http_response \<Rightarrow> rat option" where
  "rate_limit_delay lib cl r =
     (case retry_after r of
        None \<Rightarrow> Some (retry_delay cl)
      | Some s \<Rightarrow> if s = [] then Some (retry_delay cl) else map_option of_int (py_int lib s))"

text \<open>
  What one call of the library amounts to, before the retry counter is looked at: a
  value to return, an exception that leaves \<^verbatim>\<open>_request\<close>, a 429 with its delay, or a
  transport failure for the last handler. The \<^verbatim>\<open>try\<close> body is the same text in both
  clients; \<open>ok\<close> is the \<^verbatim>\<open>response.ok\<close> of the client's library.
\<close>

datatype verdict = Return json | Throw py_exception | RateLimited rat | TransportFailure string

definition classify :: "(http_response \<Rightarrow> bool) \<Rightarrow> pylib \<Rightarrow> client \<Rightarrow> answer \<Rightarrow> verdict" where
  "classify ok lib cl ans =
     (case ans of
        TimeoutRaised \<Rightarrow> Throw timeout_error
      | FailureRaised e \<Rightarrow> TransportFailure e
      | Response r \<Rightarrow>
          if status_code r = 429 then
            (case rate_limit_delay lib cl r of
               None \<Rightarrow> Throw ValueError
             | Some delay \<Rightarrow> RateLimited delay)
          else if \<not> ok r then Throw (error_of_response r)
          else
            (case json_body r of
               Parsed v \<Rightarrow> Return v
             | DecodeFailed \<Rightarrow> Throw JSONDecodeError
             | DecodeFailedTransport e \<Rightarrow> TransportFailure e))"

text \<open>
  \<^verbatim>\<open>AsyncInfinityAssistantClient._request\<close>, from attempt \<open>n\<close> of the server on: the value
  returned or the exception raised, and the sends and sleeps in order. An exception of
  \<^verbatim>\<open>asyncio.sleep\<close> is caught by no handler.
\<close>

function request_async ::
  "pylib \<Rightarrow> client \<Rightarrow> api_call \<Rightarrow> (nat \<Rightarrow> outcome) \<Rightarrow> nat \<Rightarrow> nat \<Rightarrow> (py_exception + json) \<times> event list"
where
  "request_async lib cl c srv n retry_count =
     (case aiohttp_request lib (async_call cl c) srv n 0 of
        (ans, n', sends) \<Rightarrow>
          (case classify ok_aiohttp lib cl ans of
             Return v \<Rightarrow> (Inr v, sends)
           | Throw x \<Rightarrow> (Inl x, sends)
           | RateLimited delay \<Rightarrow>
               if retry_count < max_retries cl then
                 (case asyncio_sleep lib delay of
                    Some x \<Rightarrow> (Inl x, sends)
                  | None \<Rightarrow>
                      (case request_async lib cl c srv n' (retry_count + 1) of
                         (res, tr) \<Rightarrow> (res, sends @ Sleep delay # tr)))
               else (Inl rate_limit_error, sends)
           | TransportFailure e \<Rightarrow>
               if retry_count < max_retries cl then
                 (case asyncio_sleep lib (backoff lib cl retry_count) of
                    Some x \<Rightarrow> (Inl x, sends)
                  | None \<Rightarrow>
                      (case request_async lib cl c srv n' (retry_count + 1) of
                         (res, tr) \<Rightarrow> (res, sends @ Sleep (backoff lib cl retry_count) # tr)))
               else (Inl (network_error e), sends)))"
  by pat_completeness auto
termination
  by (relation "measure (\<lambda>(lib, cl, c, srv, n, retry_count). max_retries cl - retry_count)") auto

text \<open>
  \<^verbatim>\<open>InfinityAssistantClient._request\<close>. \<^verbatim>\<open>session.request\<close> goes through the adapter, which
  may use several attempts. An exception of \<^verbatim>\<open>time.sleep\<close> is caught by no handler.
\<close>

function request_sync ::
  "pylib \<Rightarrow> client \<Rightarrow> api_call \<Rightarrow> (nat \<Rightarrow> outcome) \<Rightarrow> nat \<Rightarrow> nat \<Rightarrow> (py_exception + json) \<times> event list"
where
  "request_sync lib cl c srv n retry_count =
     (case session_request lib cl (sync_call lib cl c) srv n 0 of
        (ans, n', sends) \<Rightarrow>
          (case classify ok_requests lib cl ans of
             Return v \<Rightarrow> (Inr v, sends)
           | Throw x \<Rightarrow> (Inl x, sends)
           | RateLimited delay \<Rightarrow>
               if retry_count < max_retries cl then
                 (case time_sleep lib delay of
                    Some x \<Rightarrow> (Inl x, sends)
                  | None \<Rightarrow>
                      (case request_sync lib cl c srv n' (retry_count + 1) of
                         (res, tr) \<Rightarrow> (res, sends @ Sleep delay # tr)))
               else (Inl rate_limit_error, sends)
           | TransportFailure e \<Rightarrow>
               if retry_count < max_retries cl then
                 (case time_sleep lib (backoff lib cl retry_count) of
                    Some x \<Rightarrow> (Inl x, sends)
                  | None \<Rightarrow>
                      (case request_sync lib cl c srv n' (retry_count + 1) of
                         (res, tr) \<Rightarrow> (res, sends @ Sleep (backoff lib cl retry_count) # tr)))
               else (Inl (network_error e), sends)))"
  by pat_completeness auto
termination
  by (relation "measure (\<lambda>(lib, cl, c, srv, n, retry_count). max_retries cl - retry_count)") auto

section \<open>chat\_stream\<close>

text \<open>
  The generators: the chunks yielded, the exception that ends the generator if one does,
  and the sends. The POST of the blocking client goes through the adapter as well.
  A failure before the loop yields no chunk; neither generator retries.
\<close>

definition open_stream :: "(http_response \<Rightarrow> bool) \<Rightarrow> answer \<Rightarrow> py_exception + http_response" where
  "open_stream ok ans =
     (case ans of
        TimeoutRaised \<Rightarrow> Inl timeout_error
      | FailureRaised e \<Rightarrow> Inl (network_error e)
      | Response r \<Rightarrow> if \<not> ok r then Inl (error_of_response r) else Inr r)"

definition chat_stream ::
  "pylib \<Rightarrow> client \<Rightarrow> (string \<times> json) list \<Rightarrow> (nat \<Rightarrow> outcome) \<Rightarrow> (chunk list \<times> py_exception option) \<times> event list"
where
  "chat_stream lib cl kwargs srv =
     (case session_request lib cl (stream_call cl kwargs) srv 0 0 of
        (ans, n', sends) \<Rightarrow>
          (case open_stream ok_requests ans of
             Inl x \<Rightarrow> (([], Some x), sends)
           | Inr r \<Rightarrow> (decode_stream (json_loads lib) (body_lines r) (body_end r), sends)))"

definition chat_stream_async ::
  "pylib \<Rightarrow> client \<Rightarrow> (string \<times> json) list \<Rightarrow> (nat \<Rightarrow> outcome) \<Rightarrow> (chunk list \<times> py_exception option) \<times> event list"
where
  "chat_stream_async lib cl kwargs srv =
     (case aiohttp_request lib (stream_call cl kwargs) srv 0 0 of
        (ans, n', sends) \<Rightarrow>
          (case open_stream ok_aiohttp ans of
             Inl x \<Rightarrow> (([], Some x), sends)
           | Inr r \<Rightarrow> (decode_stream_async (json_loads lib) (body_lines r) (body_end r), sends)))"


section \<open>API surface\<close>

text \<open>Each public method is one call of \<^verbatim>\<open>_request\<close>, the same in both clients.\<close>

definition chat_call :: "(string \<times> json) list \<Rightarrow> api_call" where
  "chat_call kwargs =
     \<lparr>verb = POST, endpoint = ''/chat'', params = None, data = Some (JObj kwargs)\<rparr>"

definition search_knowledge_call :: "(string \<times> json) list \<Rightarrow> api_call" where
  "search_knowledge_call kwargs =
     \<lparr>verb = POST, endpoint = ''/knowledge/search'', params = None, data = Some (JObj kwargs)\<rparr>"

definition store_memory_call :: "string \<Rightarrow> json \<Rightarrow> json \<Rightarrow> api_call" where
  "store_memory_call key val ttl =
     \<lparr>verb = POST, endpoint = ''/memory/store'', params = None,
      data = Some (JObj [(''key'', JStr key), (''value'', val), (''ttl'', ttl)])\<rparr>"

definition retrieve_memory_call :: "string \<Rightarrow> api_call" where
  "retrieve_memory_call key =
     \<lparr>verb = GET, endpoint = ''/memory/retrieve'', params = Some [(''key'', key)], data = None\<rparr>"

definition research_call :: "(string \<times> json) list \<Rightarrow> api_call" where
  "research_call kwargs =
     \<lparr>verb = POST, endpoint = ''/research'', params = None, data = Some (JObj kwargs)\<rparr>"

definition list_api_keys_call :: api_call where
  "list_api_keys_call = \<lparr>verb = GET, endpoint = ''/api-keys'', params = None, data = None\<rparr>"

definition create_api_key_call :: "string \<Rightarrow> api_call" where
  "create_api_key_call name =
     \<lparr>verb = POST, endpoint = ''/api-keys'', params = None,
      data = Some (JObj [(''name'', JStr name)])\<rparr>"

definition delete_api_key_call :: "string \<Rightarrow> api_call" where
  "delete_api_key_call key_id =
     \<lparr>verb = DELETE, endpoint = ''/api-keys'', params = Some [(''id'', key_id)], data = None\<rparr>"

definition list_webhooks_call :: api_call where
  "list_webhooks_call = \<lparr>verb = GET, endpoint = ''/webhooks'', params = None, data = None\<rparr>"

definition create_webhook_call :: "string \<Rightarrow> string list \<Rightarrow> api_call" where
  "create_webhook_call url events =
     \<lparr>verb = POST, endpoint = ''/webhooks'', params = None,
      data = Some (JObj [(''url'', JStr url), (''events'', JArr (map JStr events))])\<rparr>"


definition health_call :: api_call where
  "health_call = \<lparr>verb = GET, endpoint = ''/health'', params = None, data = None\<rparr>"

section \<open>A small runtime for worked examples\<close>

text \<open>
  Closed examples need the runtime's functions at a few inputs. On the texts listed here
  \<open>sample_loads\<close> is \<^verbatim>\<open>json.loads\<close>; the other text used in an example, \<^verbatim>\<open>not-json\<close>, is not
  JSON. \<open>sample_int\<close> is \<^verbatim>\<open>int\<close> on decimal numerals
  with or without a minus sign and on texts that hold a letter, \<open>sample_urlencode\<close> is
  \<^verbatim>\<open>urlencode\<close> on keys and values that need no escaping, and
  \<open>sample_retry_after_valid\<close> accepts plain seconds and the one HTTP date of the examples.
  \<open>sample_mul\<close> is the exact product, which is what Python computes for the delays of the
  examples (1 and small integers). \<open>sample_sleep_overflows\<close> is the bound of CPython for a
  whole number of seconds, whose nanoseconds must fit 64 bits, and
  \<open>sample_float_overflows\<close> the bound of the conversion of an \<^verbatim>\<open>int\<close> to a float.
  \<open>sample_redirect\<close> is the request that both libraries send after a GET: a GET of the
  target.
\<close>

definition sample_loads :: "string \<Rightarrow> json option" where
  \<open>sample_loads s =
     (if s = ''{"content":"Hi"}'' then Some (JObj [(''content'', JStr ''Hi'')])
      else if s = ''{"content":" there"}'' then Some (JObj [(''content'', JStr '' there'')])
      else if s = ''{"type":"error","error":"boom"}''
        then Some (JObj [(''type'', JStr ''error''), (''error'', JStr ''boom'')])
      else if s = ''5'' then Some (JInt 5)
      else None)\<close>

text \<open>
  The same on a text that a line feed follows: \<^verbatim>\<open>json.loads\<close> skips white space around a
  value.
\<close>

definition sample_loads_lf :: "string \<Rightarrow> json option" where
  "sample_loads_lf s = sample_loads (if s \<noteq> [] \<and> last s = CHR 0x0A then butlast s else s)"

definition digits_value :: "string \<Rightarrow> int option" where
  "digits_value s =
     (if s \<noteq> [] \<and> list_all (\<lambda>c. c \<in> set ''0123456789'') s
      then Some (foldl (\<lambda>a c. 10 * a + (int (of_char c) - 48)) 0 s)
      else None)"

definition sample_int :: "string \<Rightarrow> int option" where
  "sample_int s =
     (case s of
        [] \<Rightarrow> None
      | c # t \<Rightarrow> if c = CHR ''-'' then map_option uminus (digits_value t) else digits_value s)"

definition sample_urlencode :: "(string \<times> string) list \<Rightarrow> string" where
  "sample_urlencode ps = concat (map (\<lambda>(k, v). k @ ''='' @ v) ps)"

definition sample_retry_after_valid :: "string \<Rightarrow> bool" where
  "sample_retry_after_valid s =
     (digits_value s \<noteq> None \<or> s = ''Wed, 21 Oct 2015 07:28:00 GMT'')"

definition sample_mul :: "rat \<Rightarrow> nat \<Rightarrow> rat" where
  "sample_mul x k = x * of_nat k"

definition sample_sleep_overflows :: "rat \<Rightarrow> bool" where
  "sample_sleep_overflows d = (d < - 9223372036 \<or> 9223372036 < d)"

definition sample_float_overflows :: "rat \<Rightarrow> bool" where
  "sample_float_overflows d = (2 ^ 1024 - 2 ^ 970 \<le> \<bar>d\<bar>)"

definition sample_redirect :: "library_call \<Rightarrow> http_response \<Rightarrow> library_call" where
  "sample_redirect call r =
     call\<lparr>lc_url := (case location r of None \<Rightarrow> lc_url call | Some u \<Rightarrow> u), lc_params := None\<rparr>"

definition sample_lib :: pylib where
  "sample_lib =
     \<lparr>py_int = sample_int, json_loads = sample_loads, urlencode = sample_urlencode,
      retry_after_valid = sample_retry_after_valid, py_mul = sample_mul,
      sleep_overflows = sample_sleep_overflows, float_overflows = sample_float_overflows,
      requests_redirect = sample_redirect, aiohttp_redirect = sample_redirect\<rparr>"

text \<open>The default configuration, and one with a single retry.\<close>

definition sample_client :: client where
  "sample_client = new_client (Some ''ia_key'') ''https://infinityassistant.io/api'' 60 3 1"

definition one_retry_client :: client where
  "one_retry_client = new_client (Some ''ia_key'') ''https://infinityassistant.io/api'' 60 1 1"

definition json_response :: "int \<Rightarrow> json \<Rightarrow> http_response" where
  "json_response st b =
     \<lparr>status_code = st, retry_after = None, location = None, json_body = Parsed b,
      body_lines = [], body_end = EndOfStream\<rparr>"


text \<open>The same response to every attempt.\<close>

definition always :: "http_response \<Rightarrow> nat \<Rightarrow> outcome" where
  "always r n = Responded r"

text \<open>
  A 429 with the given \<^verbatim>\<open>Retry-After\<close>, a 204 with no body, on which \<^verbatim>\<open>response.json()\<close> of
  requests raises its own \<^verbatim>\<open>JSONDecodeError\<close>, and a 200 whose body is a stream of lines.
\<close>

definition rate_limited_response :: "string option \<Rightarrow> http_response" where
  "rate_limited_response h =
     \<lparr>status_code = 429, retry_after = h, location = None, json_body = Parsed (JObj []),
      body_lines = [], body_end = EndOfStream\<rparr>"


definition stream_response :: "raw_line list \<Rightarrow> http_response" where
  "stream_response ls =
     \<lparr>status_code = 200, retry_after = None, location = None, json_body = DecodeFailed,
      body_lines = ls, body_end = EndOfStream\<rparr>"


section \<open>Properties of the streaming decoder\<close>

declare urlopen.simps [simp del] session_request.simps [simp del] aiohttp_request.simps [simp del]
  request_async.simps [simp del] request_sync.simps [simp del]

lemma on_line_no_prefix: "take 6 s \<noteq> ''data: '' \<Longrightarrow> on_line loads s = Continue []"
  by (simp add: on_line_def)

lemma on_line_malformed:
  "take 6 s = ''data: '' \<Longrightarrow> drop 6 s \<noteq> ''[DONE]'' \<Longrightarrow> loads (drop 6 s) = None
   \<Longrightarrow> on_line loads s = Continue []"
  by (simp add: on_line_def)

lemma on_line_non_object:
  "take 6 s = ''data: '' \<Longrightarrow> drop 6 s \<noteq> ''[DONE]'' \<Longrightarrow> loads (drop 6 s) = Some v
   \<Longrightarrow> \<not> is_dict v \<Longrightarrow> on_line loads s = Raise AttributeError"
  by (cases v) (simp_all add: on_line_def)

text \<open>The test for an empty line changes nothing: an empty line has no prefix.\<close>

lemma iter_lines_loop_Utf8:
  "iter_lines_loop loads (Utf8 s # rest) =
     (case on_line loads s of
        Continue cs \<Rightarrow> (case iter_lines_loop loads rest of (ds, e) \<Rightarrow> (cs @ ds, e))
      | Break cs \<Rightarrow> (cs, Broke)
      | Raise x \<Rightarrow> ([], Raised x))"
  by (cases s) (simp_all add: on_line_def)

lemma content_loop_eq: "content_loop loads ls = iter_lines_loop loads ls"
proof (induction ls)
  case Nil
  show ?case by simp
next
  case (Cons l ls)
  then show ?case
    by (cases l) (simp_all add: iter_lines_loop_Utf8 split: step.split)
qed

text \<open>
  On the same lines the two generators differ only in what they make of a timeout of the
  line iterator.
\<close>

lemma iter_lines_raises_end: "iter_lines_raises EndOfStream = None"
  by (simp add: iter_lines_raises_def)

lemma content_raises_end: "content_raises EndOfStream = None"
  by (simp add: content_raises_def)

lemma decode_stream_async_eq:
  "decode_stream_async loads ls EndOfStream = decode_stream loads ls EndOfStream"
  by (simp add: decode_stream_async_def decode_stream_def content_loop_eq after_loop_def
      iter_lines_raises_end content_raises_end split: prod.split loop_exit.split)

lemma after_loop_raised: "after_loop raises (cs, Raised x) ending = (cs, Some x)"
  by (simp add: after_loop_def)

lemma after_loop_broke: "after_loop raises (cs, Broke) ending = (cs @ [DoneChunk], None)"
  by (simp add: after_loop_def)

lemma after_loop_end_of_stream:
  "raises EndOfStream = None \<Longrightarrow>
   after_loop raises (cs, Exhausted) EndOfStream = (cs @ [DoneChunk], None)"
  by (simp add: after_loop_def)

lemma iter_lines_loop_skip:
  "on_line loads s = Continue [] \<Longrightarrow>
   iter_lines_loop loads (pre @ Utf8 s # rest) = iter_lines_loop loads (pre @ rest)"
proof (induction pre)
  case Nil
  then show ?case by (simp add: iter_lines_loop_Utf8 split: prod.split)
next
  case (Cons l pre)
  show ?case
  proof (cases l)
    case (Utf8 t)
    then show ?thesis using Cons by (simp add: iter_lines_loop_Utf8 split: step.split)
  next
    case Undecodable
    then show ?thesis by simp
  qed
qed

text \<open>Lines that the loop runs through without leaving it only add their chunks.\<close>

lemma iter_lines_loop_append:
  "iter_lines_loop loads pre = (cs, Exhausted) \<Longrightarrow>
   iter_lines_loop loads (pre @ rest) =
     (cs @ fst (iter_lines_loop loads rest), snd (iter_lines_loop loads rest))"
proof (induction pre arbitrary: cs)
  case Nil
  then show ?case by simp
next
  case (Cons l pre)
  show ?case
  proof (cases l)
    case (Utf8 t)
    then show ?thesis using Cons
      by (auto simp: iter_lines_loop_Utf8 split: step.splits prod.splits)
  next
    case Undecodable
    then show ?thesis using Cons by simp
  qed
qed

text \<open>
  After a \<^verbatim>\<open>break\<close> the generator still reaches the \<^verbatim>\<open>yield\<close> that follows the loop, and
  the lines after the \<^verbatim>\<open>break\<close> are not read.
\<close>

lemma done_follows_break:
  assumes "iter_lines_loop loads pre = (ps, Exhausted)" and "on_line loads s = Break cs"
  shows "decode_stream loads (pre @ Utf8 s # rest) ending = (ps @ cs @ [DoneChunk], None)"
  using assms
  by (simp add: decode_stream_def after_loop_def iter_lines_loop_append iter_lines_loop_Utf8)

text \<open>
  When the loop runs through every line, the stream ends with the \<open>DoneChunk\<close> that
  follows the loop; and a generator that ends without an exception has always yielded a
  \<open>DoneChunk\<close> last.
\<close>

lemma final_done_when_loop_exhausted:
  assumes "iter_lines_loop loads ls = (cs, Exhausted)"
  shows "decode_stream loads ls EndOfStream = (cs @ [DoneChunk], None)
       \<and> decode_stream_async loads ls EndOfStream = (cs @ [DoneChunk], None)"
  using assms
  by (simp add: decode_stream_async_eq decode_stream_def after_loop_def iter_lines_raises_end)

lemma decode_stream_ends_with_done:
  "decode_stream loads ls ending = (cs, None) \<Longrightarrow> cs \<noteq> [] \<and> last cs = DoneChunk"
  by (auto simp: decode_stream_def after_loop_def
      split: prod.splits loop_exit.splits option.splits)

text \<open>
  A line of valid UTF-8 with the prefix \<^verbatim>\<open>data: \<close> whose payload is not the sentinel and
  on which \<^verbatim>\<open>json.loads\<close> raises \<^verbatim>\<open>JSONDecodeError\<close> is skipped, and so is a line of valid
  UTF-8 without the prefix (the empty line among them): wherever the line stands, the
  decoder yields and raises exactly what it does on the stream without that line, in
  both clients.
\<close>

lemma malformed_line_skipped:
  assumes "take 6 s \<noteq> ''data: '' \<or> (drop 6 s \<noteq> ''[DONE]'' \<and> loads (drop 6 s) = None)"
  shows "decode_stream loads (pre @ Utf8 s # rest) ending = decode_stream loads (pre @ rest) ending
       \<and> decode_stream_async loads (pre @ Utf8 s # rest) ending
           = decode_stream_async loads (pre @ rest) ending"
proof -
  have "on_line loads s = Continue []"
    using assms
    by (cases "take 6 s = ''data: ''") (simp_all add: on_line_no_prefix on_line_malformed)
  then show ?thesis
    by (simp add: decode_stream_async_def decode_stream_def content_loop_eq iter_lines_loop_skip)
qed

text \<open>
  C5. A line whose payload has \<^verbatim>\<open>type\<close> equal to \<^verbatim>\<open>"error"\<close> makes the decoder yield the
  error chunk and leave the loop, but the sequence does not end there: the \<^verbatim>\<open>yield\<close>
  after the loop adds a \<open>DoneChunk\<close> behind the \<open>ErrorChunk\<close>, in both clients. The line
  after the error line is not read.
\<close>

theorem error_chunk_is_followed_by_done:
  \<open>decode_stream sample_loads
     [Utf8 ''data: {"type":"error","error":"boom"}'', Utf8 ''data: {"content":"Hi"}''] EndOfStream
     = ([ErrorChunk (JStr ''boom''), DoneChunk], None)
   \<and> decode_stream_async sample_loads
     [Utf8 ''data: {"type":"error","error":"boom"}'', Utf8 ''data: {"content":"Hi"}''] EndOfStream
     = ([ErrorChunk (JStr ''boom''), DoneChunk], None)\<close>
  by (simp add: decode_stream_async_eq decode_stream_def after_loop_def iter_lines_raises_end
      on_line_def sample_loads_def dict_get_def dict_get_default_def)

text \<open>
  C6. On the lines \<^verbatim>\<open>data: {"content":"Hi"}\<close>, \<^verbatim>\<open>data: {"content":" there"}\<close>,
  \<^verbatim>\<open>data: [DONE]\<close> the decoder yields the two text chunks and then \<open>DoneChunk\<close> twice: once
  for the sentinel and once more after the loop. It does not stop after the first.
\<close>

theorem done_sentinel_yields_done_twice:
  \<open>decode_stream sample_loads
     [Utf8 ''data: {"content":"Hi"}'', Utf8 ''data: {"content":" there"}'', Utf8 ''data: [DONE]'']
     EndOfStream
     = ([TextChunk (JStr ''Hi''), TextChunk (JStr '' there''), DoneChunk, DoneChunk], None)
   \<and> decode_stream_async sample_loads
     [Utf8 ''data: {"content":"Hi"}'', Utf8 ''data: {"content":" there"}'', Utf8 ''data: [DONE]'']
     EndOfStream
     = ([TextChunk (JStr ''Hi''), TextChunk (JStr '' there''), DoneChunk, DoneChunk], None)\<close>
  by (simp add: decode_stream_async_eq decode_stream_def after_loop_def iter_lines_raises_end
      on_line_def sample_loads_def dict_get_def dict_get_default_def)

text \<open>
  C7. A stream that ends with no \<^verbatim>\<open>[DONE]\<close> and no error payload need not end with a
  \<open>DoneChunk\<close>: on the lines \<^verbatim>\<open>data: {"content":"Hi"}\<close>, \<^verbatim>\<open>data: 5\<close> the generator yields
  the text chunk and is then ended by \<^verbatim>\<open>AttributeError\<close>, so its last chunk is a text
  chunk, in both clients.
\<close>

theorem stream_without_final_done:
  \<open>decode_stream sample_loads [Utf8 ''data: {"content":"Hi"}'', Utf8 ''data: 5''] EndOfStream
     = ([TextChunk (JStr ''Hi'')], Some AttributeError)
   \<and> decode_stream_async sample_loads [Utf8 ''data: {"content":"Hi"}'', Utf8 ''data: 5''] EndOfStream
     = ([TextChunk (JStr ''Hi'')], Some AttributeError)\<close>
  by (simp add: decode_stream_async_eq decode_stream_def after_loop_def iter_lines_raises_end
      on_line_def sample_loads_def dict_get_def dict_get_default_def)

text \<open>
  C8. A malformed line is not always skipped: \<^verbatim>\<open>line.decode("utf-8")\<close> stands before the
  \<^verbatim>\<open>try\<close>, so a line of bytes that are not valid UTF-8 ends the generator with
  \<^verbatim>\<open>UnicodeDecodeError\<close>. On such a line between two lines that carry text, both clients
  yield the first text chunk and then fail: the line after it is not read and no
  \<open>DoneChunk\<close> is yielded. The line \<^verbatim>\<open>data: not-json\<close> in the same place is skipped.
\<close>

theorem undecodable_line_ends_stream:
  \<open>decode_stream sample_loads
     [Utf8 ''data: {"content":"Hi"}'', Undecodable, Utf8 ''data: {"content":" there"}'']
     EndOfStream
     = ([TextChunk (JStr ''Hi'')], Some UnicodeDecodeError)
   \<and> decode_stream_async sample_loads
     [Utf8 ''data: {"content":"Hi"}'', Undecodable, Utf8 ''data: {"content":" there"}'']
     EndOfStream
     = ([TextChunk (JStr ''Hi'')], Some UnicodeDecodeError)
   \<and> decode_stream sample_loads
     [Utf8 ''data: {"content":"Hi"}'', Utf8 ''data: not-json'', Utf8 ''data: {"content":" there"}'']
     EndOfStream
     = ([TextChunk (JStr ''Hi''), TextChunk (JStr '' there''), DoneChunk], None)
   \<and> decode_stream_async sample_loads
     [Utf8 ''data: {"content":"Hi"}'', Utf8 ''data: not-json'', Utf8 ''data: {"content":" there"}'']
     EndOfStream
     = ([TextChunk (JStr ''Hi''), TextChunk (JStr '' there''), DoneChunk], None)\<close>
  by (simp add: decode_stream_async_eq decode_stream_def after_loop_def iter_lines_raises_end
      on_line_def sample_loads_def dict_get_def dict_get_default_def)

text \<open>
  C10. A line \<^verbatim>\<open>data: <payload>\<close> whose payload is not the sentinel and decodes as JSON to
  something that is not an object (a number, a string, a list, \<^verbatim>\<open>null\<close>) is not skipped:
  when the loop reaches it, \<^verbatim>\<open>parsed.get\<close> raises \<^verbatim>\<open>AttributeError\<close>, which no handler
  catches. The generator ends with that exception after the chunks of the lines before;
  it reads no later line and yields no \<open>DoneChunk\<close>. Both clients.
\<close>

theorem non_object_payload_raises:
  assumes "take 6 s = ''data: ''" and "drop 6 s \<noteq> ''[DONE]''"
    and "loads (drop 6 s) = Some v" and "\<not> is_dict v"
    and "iter_lines_loop loads pre = (cs, Exhausted)"
  shows "decode_stream loads (pre @ Utf8 s # rest) ending = (cs, Some AttributeError)
       \<and> decode_stream_async loads (pre @ Utf8 s # rest) ending = (cs, Some AttributeError)"
proof -
  have r: "on_line loads s = Raise AttributeError"
    using assms(1-4) by (rule on_line_non_object)
  show ?thesis
    using assms(5)
    by (simp add: decode_stream_async_def decode_stream_def content_loop_eq after_loop_def
        iter_lines_loop_append iter_lines_loop_Utf8 r)
qed

theorem non_object_payload_raises_witness:
  \<open>(take 6 ''data: 5'' = ''data: '' \<and> drop 6 ''data: 5'' \<noteq> ''[DONE]''
      \<and> sample_loads (drop 6 ''data: 5'') = Some (JInt 5) \<and> \<not> is_dict (JInt 5)
      \<and> iter_lines_loop sample_loads [Utf8 ''data: not-json''] = ([], Exhausted))
   \<and> decode_stream sample_loads
        [Utf8 ''data: not-json'', Utf8 ''data: 5'', Utf8 ''data: [DONE]''] EndOfStream
      = ([], Some AttributeError)
   \<and> decode_stream_async sample_loads
        [Utf8 ''data: not-json'', Utf8 ''data: 5'', Utf8 ''data: [DONE]''] EndOfStream
      = ([], Some AttributeError)\<close>
proof -
  have h1: \<open>take 6 ''data: 5'' = ''data: ''\<close> by simp
  have h2: \<open>drop 6 ''data: 5'' \<noteq> ''[DONE]''\<close> by simp
  have h3: \<open>sample_loads (drop 6 ''data: 5'') = Some (JInt 5)\<close> by (simp add: sample_loads_def)
  have h4: \<open>\<not> is_dict (JInt 5)\<close> by simp
  have h5: \<open>iter_lines_loop sample_loads [Utf8 ''data: not-json''] = ([], Exhausted)\<close>
    by (simp add: on_line_def sample_loads_def)
  from non_object_payload_raises [OF h1 h2 h3 h4 h5, of \<open>[Utf8 ''data: [DONE]'']\<close> EndOfStream]
  show ?thesis using h1 h2 h3 h4 h5 by simp
qed

section \<open>Properties of the request executor\<close>

subsection \<open>One call of the library\<close>

lemma urlopen_pass:
  "srv n = Responded r \<Longrightarrow> \<not> is_retry left m r \<Longrightarrow> urlopen lib left m srv n = (Response r, Suc n)"
  by (simp add: urlopen.simps [of lib left m srv n])



lemma not_retry_post: "\<not> is_retry left POST r"
  by (simp add: is_retry_def allowed_methods_def)

lemma not_redirect_from_400: "400 \<le> status_code r \<Longrightarrow> \<not> is_redirect r"
  by (auto simp: is_redirect_def redirect_statuses_def)


text \<open>A response that the adapter hands on and that is no redirect costs one send.\<close>

lemma session_request_pass:
  assumes "srv n = Responded r" and "\<not> is_retry (max_retries cl) (lc_verb call) r"
    and "\<not> is_redirect r"
  shows "session_request lib cl call srv n hops = (Response r, Suc n, [Send call])"
  using assms
  by (simp add: session_request.simps [of lib cl call srv n hops] urlopen_pass)

lemma aiohttp_request_pass:
  assumes "srv n = Responded r" and "\<not> is_redirect r"
  shows "aiohttp_request lib call srv n 0 = (Response r, Suc n, [Send call])"
  using assms
  by (simp add: aiohttp_request.simps [of lib call srv n 0] is_redirect_def
      aiohttp_max_redirects_def)


lemma sync_call_verb: "lc_verb (sync_call lib cl c) = verb c"
  by (simp add: sync_call_def)

subsection \<open>One pass through \_request\<close>

lemma classify_error:
  "status_code r \<noteq> 429 \<Longrightarrow> \<not> ok r \<Longrightarrow> classify ok lib cl (Response r) = Throw (error_of_response r)"
  by (simp add: classify_def)


lemma classify_rate_limited:
  "status_code r = 429 \<Longrightarrow> rate_limit_delay lib cl r = Some d \<Longrightarrow> classify ok lib cl (Response r) = RateLimited d"
  by (simp add: classify_def)



lemma request_async_throw:
  "aiohttp_request lib (async_call cl c) srv n 0 = (ans, n', sends) \<Longrightarrow>
   classify ok_aiohttp lib cl ans = Throw x \<Longrightarrow>
   request_async lib cl c srv n rc = (Inl x, sends)"
  by (simp add: request_async.simps [of lib cl c srv n rc])



lemma request_sync_throw:
  "session_request lib cl (sync_call lib cl c) srv n 0 = (ans, n', sends) \<Longrightarrow>
   classify ok_requests lib cl ans = Throw x \<Longrightarrow>
   request_sync lib cl c srv n rc = (Inl x, sends)"
  by (simp add: request_sync.simps [of lib cl c srv n rc])




lemma async_error_step:
  assumes "srv n = Responded r" and "400 \<le> status_code r" and "status_code r \<noteq> 429"
  shows "request_async lib cl c srv n rc = (Inl (error_of_response r), [Send (async_call cl c)])"
proof -
  have a: "aiohttp_request lib (async_call cl c) srv n 0 = (Response r, Suc n, [Send (async_call cl c)])"
    using assms(1) not_redirect_from_400 [OF assms(2)] by (rule aiohttp_request_pass)
  have "classify ok_aiohttp lib cl (Response r) = Throw (error_of_response r)"
    using assms(2,3) by (simp add: classify_error ok_aiohttp_def)
  with a show ?thesis by (rule request_async_throw)
qed

lemma sync_error_step:
  assumes "srv n = Responded r" and "400 \<le> status_code r" and "status_code r < 600"
    and "status_code r \<noteq> 429" and "\<not> is_retry (max_retries cl) (verb c) r"
  shows "request_sync lib cl c srv n rc = (Inl (error_of_response r), [Send (sync_call lib cl c)])"
proof -
  have nr: "\<not> is_retry (max_retries cl) (lc_verb (sync_call lib cl c)) r"
    using assms(5) by (simp add: sync_call_verb)
  have sr: "session_request lib cl (sync_call lib cl c) srv n 0
      = (Response r, Suc n, [Send (sync_call lib cl c)])"
    using assms(1) nr not_redirect_from_400 [OF assms(2)] by (rule session_request_pass)
  have cls: "classify ok_requests lib cl (Response r) = Throw (error_of_response r)"
    using assms(2,3,4) by (simp add: classify_error ok_requests_def)
  from sr cls show ?thesis by (rule request_sync_throw)
qed

lemma error_of_response_dict:
  "error_data_of r = JObj error_data \<Longrightarrow>
   error_of_response r =
     ApiException
       \<lparr>err_class = InfinityAssistantError,
        err_message =
          (if truthy (dict_get error_data ''message'') then dict_get error_data ''message''
           else if truthy (dict_get error_data ''error'') then dict_get error_data ''error''
           else JStr ''Request failed''),
        err_code = dict_get error_data ''code'',
        err_status_code = Some (status_code r),
        err_response = Some (JObj error_data)\<rparr>"
  by (simp add: error_of_response_def new_error_def py_or_def)

text \<open>
  C1 (amended). A response with a status from 400 on other than 429, whose body either
  does not decode or decodes to an object, is not retried whatever the retry counter is:
  the non-blocking client sends once and raises the API error whose message is the
  body's \<^verbatim>\<open>message\<close> if truthy, else its \<^verbatim>\<open>error\<close> if truthy, else \<^verbatim>\<open>Request failed\<close>, whose
  code is the body's \<^verbatim>\<open>code\<close>, whose status is the response's and whose response is the
  decoded body, or \<^verbatim>\<open>{"error": "Unknown error"}\<close> when the body does not decode. The
  blocking client does the same when the status is below 600 and its adapter hands the
  response on.
\<close>
theorem error_response_not_retried:
  assumes "srv n = Responded r" and "400 \<le> status_code r" and "status_code r \<noteq> 429"
    and "error_data_of r = JObj error_data"
  shows "request_async lib cl c srv n rc =
           (Inl (ApiException
              \<lparr>err_class = InfinityAssistantError,
               err_message =
                 (if truthy (dict_get error_data ''message'') then dict_get error_data ''message''
                  else if truthy (dict_get error_data ''error'') then dict_get error_data ''error''
                  else JStr ''Request failed''),
               err_code = dict_get error_data ''code'',
               err_status_code = Some (status_code r),
               err_response = Some (JObj error_data)\<rparr>),
            [Send (async_call cl c)])
       \<and> (status_code r < 600 \<and> \<not> is_retry (max_retries cl) (verb c) r \<longrightarrow>
           request_sync lib cl c srv n rc =
             (Inl (ApiException
                \<lparr>err_class = InfinityAssistantError,
                 err_message =
                   (if truthy (dict_get error_data ''message'') then dict_get error_data ''message''
                    else if truthy (dict_get error_data ''error'') then dict_get error_data ''error''
                    else JStr ''Request failed''),
                 err_code = dict_get error_data ''code'',
                 err_status_code = Some (status_code r),
                 err_response = Some (JObj error_data)\<rparr>),
              [Send (sync_call lib cl c)]))
       \<and> (json_body r = Parsed v \<longrightarrow> v = JObj error_data)
       \<and> (json_body r \<noteq> Parsed (JObj error_data) \<longrightarrow>
            error_data = [(''error'', JStr ''Unknown error'')])"
proof -
  have a: "request_async lib cl c srv n rc = (Inl (error_of_response r), [Send (async_call cl c)])"
    using assms(1,2,3) by (rule async_error_step)
  have s: "status_code r < 600 \<and> \<not> is_retry (max_retries cl) (verb c) r \<Longrightarrow>
      request_sync lib cl c srv n rc = (Inl (error_of_response r), [Send (sync_call lib cl c)])"
    using assms(1,2,3) by (simp add: sync_error_step)
  have b: "json_body r = Parsed v \<Longrightarrow> v = JObj error_data"
    using assms(4) by (simp add: error_data_of_def)
  have f: "json_body r \<noteq> Parsed (JObj error_data) \<Longrightarrow> error_data = [(''error'', JStr ''Unknown error'')]"
    using assms(4) by (cases "json_body r") (simp_all add: error_data_of_def)
  show ?thesis
    using a s b f by (simp add: error_of_response_dict [OF assms(4)])
qed

theorem error_response_not_retried_witness:
  "(always (json_response 404 (JObj [(''error'', JStr ''No such key''), (''code'', JStr ''NOT_FOUND'')])) 0
      = Responded (json_response 404 (JObj [(''error'', JStr ''No such key''), (''code'', JStr ''NOT_FOUND'')]))
    \<and> 400 \<le> status_code (json_response 404 (JObj [(''error'', JStr ''No such key''), (''code'', JStr ''NOT_FOUND'')]))
    \<and> status_code (json_response 404 (JObj [(''error'', JStr ''No such key''), (''code'', JStr ''NOT_FOUND'')])) \<noteq> 429
    \<and> error_data_of (json_response 404 (JObj [(''error'', JStr ''No such key''), (''code'', JStr ''NOT_FOUND'')]))
      = JObj [(''error'', JStr ''No such key''), (''code'', JStr ''NOT_FOUND'')])
   \<and> request_async sample_lib sample_client (retrieve_memory_call ''k'')
        (always (json_response 404 (JObj [(''error'', JStr ''No such key''), (''code'', JStr ''NOT_FOUND'')]))) 0 0
      = (Inl (ApiException
           \<lparr>err_class = InfinityAssistantError, err_message = JStr ''No such key'',
            err_code = JStr ''NOT_FOUND'', err_status_code = Some 404,
            err_response = Some (JObj [(''error'', JStr ''No such key''), (''code'', JStr ''NOT_FOUND'')])\<rparr>),
         [Send (async_call sample_client (retrieve_memory_call ''k''))])
   \<and> request_sync sample_lib sample_client (retrieve_memory_call ''k'')
        (always (json_response 404 (JObj [(''error'', JStr ''No such key''), (''code'', JStr ''NOT_FOUND'')]))) 0 0
      = (Inl (ApiException
           \<lparr>err_class = InfinityAssistantError, err_message = JStr ''No such key'',
            err_code = JStr ''NOT_FOUND'', err_status_code = Some 404,
            err_response = Some (JObj [(''error'', JStr ''No such key''), (''code'', JStr ''NOT_FOUND'')])\<rparr>),
         [Send (sync_call sample_lib sample_client (retrieve_memory_call ''k''))])"
proof -
  let ?b = "[(''error'', JStr ''No such key''), (''code'', JStr ''NOT_FOUND'')]"
  let ?r = "json_response 404 (JObj ?b)"
  have h1: "always ?r 0 = Responded ?r" by (simp add: always_def)
  have h2: "400 \<le> status_code ?r" by (simp add: json_response_def)
  have h3: "status_code ?r \<noteq> 429" by (simp add: json_response_def)
  have h4: "error_data_of ?r = JObj ?b" by (simp add: error_data_of_def json_response_def)
  have h5: "status_code ?r < 600 \<and> \<not> is_retry (max_retries sample_client) (verb (retrieve_memory_call ''k'')) ?r"
    by (simp add: json_response_def is_retry_def status_forcelist_def retry_after_status_codes_def)
  note t = error_response_not_retried [of "always ?r" 0 ?r ?b sample_lib sample_client
      "retrieve_memory_call ''k''" 0, OF h1 h2 h3 h4]
  from t [THEN conjunct1] t [THEN conjunct2, THEN conjunct1, THEN mp, OF h5]
  show ?thesis using h1 h2 h3 h4
    by (simp add: dict_get_def dict_get_default_def json_response_def)
qed

text \<open>
  Against C1 as stated, with one retry configured. A GET answered by 500: the adapter of the
  blocking client repeats the attempt, reports its exhausted budget as a transport
  failure, and \<^verbatim>\<open>_request\<close> then retries after its own sleep and ends with a network
  error, four sends in all. A 300: returned as a success. A 500 whose body decodes to a
  list: \<^verbatim>\<open>error_data.get\<close> raises \<^verbatim>\<open>AttributeError\<close>.
\<close>

theorem error_path_counterexample:
  "request_sync sample_lib one_retry_client health_call
        (always (json_response 500 (JObj [(''message'', JStr ''boom'')]))) 0 0
      = (Inl (network_error retry_error_text),
         [Send (sync_call sample_lib one_retry_client health_call),
          Send (sync_call sample_lib one_retry_client health_call),
          Sleep 1,
          Send (sync_call sample_lib one_retry_client health_call),
          Send (sync_call sample_lib one_retry_client health_call)])
   \<and> request_async sample_lib one_retry_client health_call
        (always (json_response 300 (JObj [(''choices'', JArr [])]))) 0 0
      = (Inr (JObj [(''choices'', JArr [])]), [Send (async_call one_retry_client health_call)])
   \<and> request_async sample_lib one_retry_client health_call
        (always (json_response 500 (JArr [JStr ''boom'']))) 0 0
      = (Inl AttributeError, [Send (async_call one_retry_client health_call)])"
  by code_simp

subsection \<open>Failed connections\<close>












text \<open>
  C2. A 429 does not always end in the rate limit error. With one retry configured and a
  server that answers 429 to every attempt, \<^verbatim>\<open>health()\<close> of the blocking client ends with a
  network error after four sends: 429 is in the \<^verbatim>\<open>status_forcelist\<close> of the adapter, which
  repeats the GET by itself and reports its used-up budget as a transport failure, so the
  branch of \<^verbatim>\<open>_request\<close> for 429 is never reached. The non-blocking client on the same
  server, and the blocking client for a POST, do what the branch says: one retry after
  \<open>retry_delay\<close>, then the rate limit error. And a \<^verbatim>\<open>Retry-After\<close> that is not an integer (an
  HTTP date) makes \<^verbatim>\<open>int\<close> raise \<^verbatim>\<open>ValueError\<close> out of \<^verbatim>\<open>_request\<close>; the configured delay is
  not used in its place.
\<close>

theorem rate_limit_branch_not_reached:
  "request_sync sample_lib one_retry_client health_call (always (rate_limited_response None)) 0 0
      = (Inl (network_error retry_error_text),
         [Send (sync_call sample_lib one_retry_client health_call),
          Send (sync_call sample_lib one_retry_client health_call),
          Sleep 1,
          Send (sync_call sample_lib one_retry_client health_call),
          Send (sync_call sample_lib one_retry_client health_call)])
   \<and> request_async sample_lib one_retry_client health_call (always (rate_limited_response None)) 0 0
      = (Inl rate_limit_error,
         [Send (async_call one_retry_client health_call), Sleep 1,
          Send (async_call one_retry_client health_call)])
   \<and> request_sync sample_lib one_retry_client (chat_call []) (always (rate_limited_response None)) 0 0
      = (Inl rate_limit_error,
         [Send (sync_call sample_lib one_retry_client (chat_call [])), Sleep 1,
          Send (sync_call sample_lib one_retry_client (chat_call []))])
   \<and> request_async sample_lib one_retry_client health_call
        (always (rate_limited_response (Some ''Wed, 21 Oct 2015 07:28:00 GMT''))) 0 0
      = (Inl ValueError, [Send (async_call one_retry_client health_call)])
   \<and> request_sync sample_lib one_retry_client (chat_call [])
        (always (rate_limited_response (Some ''Wed, 21 Oct 2015 07:28:00 GMT''))) 0 0
      = (Inl ValueError, [Send (sync_call sample_lib one_retry_client (chat_call []))])"
  by code_simp


end
